theory Spec2Isabelle
  imports Complex_Main "HOL-Library.AList" "HOL-Library.Sublist"
begin

section \<open>Host-language values\<close>

text \<open>
  Strings are \<open>char list\<close>. \<open>toLowerCase\<close> maps the letters A to Z to a to z and keeps
  every other character. \<open>String.prototype.includes\<close> is the search for a contiguous
  occurrence, written as the scan it is. A template literal renders a number in decimal.
  A thrown value is an \<open>error\<close>; a function that may throw returns \<open>error + 'a\<close>.
\<close>

datatype error = Error string | TypeError string

definition toLowerChar :: "char \<Rightarrow> char" where
  "toLowerChar c =
     (let n = (of_char c :: nat) in if 65 \<le> n \<and> n \<le> 90 then char_of (n + 32) else c)"

definition toLowerCase :: "string \<Rightarrow> string" where
  "toLowerCase s = map toLowerChar s"

fun str_includes :: "string \<Rightarrow> string \<Rightarrow> bool" where
  "str_includes [] needle = (needle = [])"
| "str_includes (c # cs) needle = (prefix needle (c # cs) \<or> str_includes cs needle)"

definition slice0 :: "nat \<Rightarrow> string \<Rightarrow> string" where
  "slice0 n s = take n s"

fun join :: "string \<Rightarrow> string list \<Rightarrow> string" where
  "join sep [] = []"
| "join sep [x] = x"
| "join sep (x # y # ys) = x @ sep @ join sep (y # ys)"

definition digit_char :: "nat \<Rightarrow> char" where
  "digit_char d = char_of (48 + d)"

fun digits :: "nat \<Rightarrow> string" where
  "digits n = (if n < 10 then [digit_char n] else digits (n div 10) @ [digit_char (n mod 10)])"

declare digits.simps [simp del]

definition Num_toString :: "int \<Rightarrow> string" where
  "Num_toString i = (if i < 0 then CHR ''-'' # digits (nat (- i)) else digits (nat i))"

text \<open>\<open>Math.round\<close> rounds to the nearest integer, a tie going up.\<close>

definition Math_round :: "rat \<Rightarrow> int" where
  "Math_round q = \<lfloor>q + 1 / 2\<rfloor>"

section \<open>Data model (src/mas/simulation/index.ts)\<close>

record ScenarioInput =
  step :: int
  customerMessage :: string
  expectedIntent :: "string option"
  expectedAgent :: "string option"

record ExpectedOutcome =
  exp_escalated :: bool
  exp_agentSequence :: "string list"
  exp_toolsCalled :: "string list option"
  finalMessageContains :: "string list option"

text \<open>
  Modelled from the spec: the tracing module (\<open>../tracing\<close>: \<open>tracer\<close>, \<open>TraceEvent\<close>,
  \<open>SessionTrace\<close>) is not among the sources. The spec calls it a per-session append-only
  event log that records message, tool and decision events. Only the length of a trace's
  \<open>timeline\<close> is read by the code embedded here.
\<close>

datatype TraceEvent = TraceMessage | TraceTool | TraceDecision

record SessionTrace =
  trace_timeline :: "TraceEvent list"

record ActualOutcome =
  act_escalated :: bool
  act_agentSequence :: "string list"
  act_toolsCalled :: "string list"
  act_trace :: "SessionTrace option"
  finalMessage :: string

datatype Status = Pending | Running | Passed | Failed | Warning

text \<open>
  \<open>executedAt\<close> and the other time stamps hold the clock reading in milliseconds; the
  source stores the same instant rendered by \<open>toISOString\<close>.
\<close>

record SimulationScenario =
  sc_id :: string
  sc_name :: string
  sc_description :: string
  inputs :: "ScenarioInput list"
  expectedOutcome :: ExpectedOutcome
  actualOutcome :: "ActualOutcome option"
  status :: Status
  executedAt :: "int option"
  duration :: "int option"

datatype EventType = Message | Routing | Tool | Decision | Escalation

datatype EventData = MessageData int string | ResponseData string bool

record TimelineEvent =
  ev_timestamp :: int
  ev_type :: EventType
  ev_agent :: "string option"
  ev_description :: string
  ev_data :: "EventData option"

record TimelineFork =
  atEvent :: int
  reason :: string
  alternativePaths :: "string list"
  chosenPath :: string

record FinalState =
  resolved :: bool
  fs_escalated :: bool
  customerSatisfied :: "bool option"
  toolsUsed :: "string list"
  agentsInvolved :: "string list"
  totalDuration :: int
  qualityScore :: int

record SimulationTimeline =
  tl_scenarioId :: string
  events :: "TimelineEvent list"
  forks :: "TimelineFork list"
  finalState :: FinalState

record Dimensions =
  accuracy :: int
  efficiency :: int
  appropriateness :: int
  escalationHandling :: int

record JudgeVerdict =
  jv_scenarioId :: string
  jv_overallScore :: int
  dimensions :: Dimensions
  issues :: "string list"
  suggestions :: "string list"
  jv_timestamp :: int

text \<open>
  A \<open>Map\<close> keeps its keys in insertion order, and \<open>set\<close> on a key already present
  replaces the value where it stands: an association list with \<open>AList.update\<close>.
  \<open>get\<close> is \<open>map_of\<close>, \<open>values()\<close> is \<open>map snd\<close>.
\<close>

record SimulationEngine =
  scenarios :: "(string \<times> SimulationScenario) list"
  timelines :: "(string \<times> SimulationTimeline) list"
  verdicts :: "(string \<times> JudgeVerdict) list"

definition newSimulationEngine :: SimulationEngine where
  "newSimulationEngine = \<lparr>scenarios = [], timelines = [], verdicts = []\<rparr>"

section \<open>Simulation engine\<close>

definition registerScenario :: "SimulationScenario \<Rightarrow> SimulationEngine \<Rightarrow> SimulationEngine" where
  "registerScenario scenario eng =
     eng\<lparr>scenarios := AList.update (sc_id scenario) scenario (scenarios eng)\<rparr>"

definition getScenarios :: "SimulationEngine \<Rightarrow> SimulationScenario list" where
  "getScenarios eng = map snd (scenarios eng)"

definition getTimeline :: "SimulationEngine \<Rightarrow> string \<Rightarrow> SimulationTimeline option" where
  "getTimeline eng scenarioId = map_of (timelines eng) scenarioId"

definition getVerdicts :: "SimulationEngine \<Rightarrow> JudgeVerdict list" where
  "getVerdicts eng = map snd (verdicts eng)"

subsection \<open>evaluateScenario\<close>

text \<open>The loop over the needles, leaving with \<open>false\<close> at the first one not found.\<close>

fun needles_found :: "string \<Rightarrow> string list \<Rightarrow> bool" where
  "needles_found msg [] = True"
| "needles_found msg (needle # rest) =
     (if \<not> str_includes (toLowerCase msg) (toLowerCase needle) then False
      else needles_found msg rest)"

definition evaluateScenario :: "SimulationScenario \<Rightarrow> bool" where
  "evaluateScenario scenario =
     (case actualOutcome scenario of
        None \<Rightarrow> False
      | Some actual \<Rightarrow>
          let expected = expectedOutcome scenario in
          if exp_escalated expected \<noteq> act_escalated actual then False
          else (case finalMessageContains expected of
                  None \<Rightarrow> True
                | Some needles \<Rightarrow> needles_found (finalMessage actual) needles))"

subsection \<open>calculateQualityScore\<close>

definition calculateQualityScore :: "SimulationScenario \<Rightarrow> ActualOutcome \<Rightarrow> int" where
  "calculateQualityScore scenario actual =
     (let score0 = (100 :: int);
          score1 = (if act_escalated actual \<and> \<not> exp_escalated (expectedOutcome scenario)
                    then score0 - 30 else score0);
          score2 = (if \<not> act_escalated actual \<and> exp_escalated (expectedOutcome scenario)
                    then score1 - 40 else score1);
          eventCount = (case act_trace actual of
                          None \<Rightarrow> 0
                        | Some tr \<Rightarrow> length (trace_timeline tr));
          score3 = (if eventCount \<le> 3 then score2 + 5
                    else if eventCount > 10 then score2 - 10 else score2)
      in max 0 (min 100 score3))"

subsection \<open>runSimulation\<close>

text \<open>
  What lies outside the engine is a world \<open>'w\<close>: whatever the executor and the tracer
  keep. The executor is the caller's function; it may change the world and may throw.
  \<open>Date.now()\<close> is a clock oracle: \<open>clock k\<close> is the reading of the engine's \<open>k\<close>-th
  look at the clock, and \<open>ticks\<close> counts the looks taken so far. The executor has no
  handle on the engine in this model.
\<close>

record ExecutorResult =
  message :: string
  escalated :: bool

type_synonym 'w Executor = "string \<Rightarrow> string \<Rightarrow> 'w \<Rightarrow> (error + ExecutorResult) \<times> 'w"

text \<open>
  Modelled from the spec: the \<open>tracer\<close> object of the absent tracing module. Its two
  operations that \<open>runSimulation\<close> calls, \<open>initSession\<close> and \<open>getTrace\<close>, are
  parameters acting on the world; nothing is assumed about them.
\<close>

record 'w Tracer =
  initSession :: "string \<Rightarrow> 'w \<Rightarrow> 'w"
  getTrace :: "string \<Rightarrow> 'w \<Rightarrow> SessionTrace option"

record 'w Machine =
  engine :: SimulationEngine
  world :: 'w
  ticks :: nat

text \<open>The local variables of \<open>runSimulation\<close> that the loop over the inputs changes.\<close>

record 'w Run =
  run_events :: "TimelineEvent list"
  run_finalMessage :: string
  run_escalated :: bool
  run_world :: 'w
  run_ticks :: nat

definition dquote :: char where
  "dquote = CHR 0x22"

definition messageEvent :: "int \<Rightarrow> ScenarioInput \<Rightarrow> TimelineEvent" where
  "messageEvent ts input =
     \<lparr>ev_timestamp = ts, ev_type = Message, ev_agent = None,
      ev_description =
        ''Customer: '' @ [dquote] @ slice0 50 (customerMessage input) @ [dquote] @ ''...'',
      ev_data = Some (MessageData (step input) (customerMessage input))\<rparr>"

definition replyEvent :: "int \<Rightarrow> ExecutorResult \<Rightarrow> TimelineEvent" where
  "replyEvent ts result =
     \<lparr>ev_timestamp = ts,
      ev_type = (if escalated result then Escalation else Decision),
      ev_agent = None,
      ev_description =
        (if escalated result then ''Escalated to human''
         else ''Response: '' @ [dquote] @ slice0 50 (message result) @ [dquote] @ ''...''),
      ev_data = Some (ResponseData (message result) (escalated result))\<rparr>"

text \<open>
  The \<open>for\<close> loop over \<open>scenario.inputs\<close>. A throwing executor ends the run: the left
  summand carries the error with the world and the clock count at that moment.
\<close>

fun run_inputs ::
  "(nat \<Rightarrow> int) \<Rightarrow> int \<Rightarrow> string \<Rightarrow> 'w Executor \<Rightarrow> ScenarioInput list \<Rightarrow> 'w Run
   \<Rightarrow> (error \<times> 'w \<times> nat) + 'w Run" where
  "run_inputs clock startTime sessionId executor [] r = Inr r"
| "run_inputs clock startTime sessionId executor (input # rest) r =
     (let ev1 = messageEvent (clock (run_ticks r) - startTime) input in
      case executor sessionId (customerMessage input) (run_world r) of
        (Inl e, w) \<Rightarrow> Inl (e, w, run_ticks r + 1)
      | (Inr result, w) \<Rightarrow>
          let ev2 = replyEvent (clock (run_ticks r + 1) - startTime) result;
              r' = \<lparr>run_events = run_events r @ [ev1, ev2],
                    run_finalMessage = message result,
                    run_escalated = escalated result,
                    run_world = w,
                    run_ticks = run_ticks r + 2\<rparr>
          in if escalated result then Inr r'
             else run_inputs clock startTime sessionId executor rest r')"

definition simSessionId :: "string \<Rightarrow> int \<Rightarrow> string" where
  "simSessionId scenarioId now = ''sim_'' @ scenarioId @ ''_'' @ Num_toString now"

definition runSimulation ::
  "'w Tracer \<Rightarrow> (nat \<Rightarrow> int) \<Rightarrow> string \<Rightarrow> 'w Executor \<Rightarrow> 'w Machine
   \<Rightarrow> (error + SimulationTimeline) \<times> 'w Machine" where
  "runSimulation tracer clock scenarioId executor m =
     (case map_of (scenarios (engine m)) scenarioId of
        None \<Rightarrow> (Inl (Error (''Scenario not found: '' @ scenarioId)), m)
      | Some scenario \<Rightarrow>
          let startTime = clock (ticks m);
              sessionId = simSessionId scenarioId (clock (ticks m + 1));
              w0 = initSession tracer sessionId (world m);
              running = scenario\<lparr>status := Running\<rparr>;
              eng1 = (engine m)\<lparr>scenarios :=
                        AList.update scenarioId running (scenarios (engine m))\<rparr>
          in (case run_inputs clock startTime sessionId executor (inputs scenario)
                    \<lparr>run_events = [], run_finalMessage = [], run_escalated = False,
                     run_world = w0, run_ticks = ticks m + 2\<rparr> of
               Inl (e, w, t) \<Rightarrow> (Inl e, \<lparr>engine = eng1, world = w, ticks = t\<rparr>)
             | Inr r \<Rightarrow>
                 let endTime = clock (run_ticks r);
                     trace = getTrace tracer sessionId (run_world r);
                     actual = \<lparr>act_escalated = run_escalated r, act_agentSequence = [],
                               act_toolsCalled = [], act_trace = trace,
                               finalMessage = run_finalMessage r\<rparr>;
                     finalState = \<lparr>resolved = (\<not> run_escalated r),
                                   fs_escalated = run_escalated r,
                                   customerSatisfied = None,
                                   toolsUsed = [], agentsInvolved = [],
                                   totalDuration = endTime - startTime,
                                   qualityScore = calculateQualityScore running actual\<rparr>;
                     timeline = \<lparr>tl_scenarioId = scenarioId, events = run_events r,
                                 forks = [], finalState = finalState\<rparr>;
                     executed = running\<lparr>actualOutcome := Some actual\<rparr>;
                     stored = executed\<lparr>status := (if evaluateScenario executed then Passed
                                                    else Failed),
                                        executedAt := Some (clock (run_ticks r + 1)),
                                        duration := Some (endTime - startTime)\<rparr>;
                     eng2 = eng1\<lparr>scenarios := AList.update scenarioId stored (scenarios eng1),
                                 timelines := AList.update scenarioId timeline (timelines eng1)\<rparr>
                 in (Inr timeline, \<lparr>engine = eng2, world = run_world r,
                                    ticks = run_ticks r + 2\<rparr>)))"

subsection \<open>judgeScenario\<close>

definition judgeScenario ::
  "int \<Rightarrow> string \<Rightarrow> SimulationEngine \<Rightarrow> error + (JudgeVerdict \<times> SimulationEngine)" where
  "judgeScenario now scenarioId eng =
     (case (map_of (scenarios eng) scenarioId, map_of (timelines eng) scenarioId) of
        (Some scenario, Some timeline) \<Rightarrow>
          let failed = (status scenario = Failed);
              accuracy = (if failed then 40 else 100);
              issues1 = (if failed then [''Scenario did not meet expected outcome''] else []);
              slow = (totalDuration (finalState timeline) > 5000);
              efficiency = (if slow then 100 - 20 else 100);
              suggestions = (if slow then [''Consider caching or parallel execution''] else []);
              rerouted = (length (filter (\<lambda>e. ev_type e = Routing) (events timeline)) > 3);
              appropriateness = (if rerouted then 85 - 30 else 85);
              issues2 = (if rerouted
                         then issues1 @ [''Too many routing decisions - unclear intent classification'']
                         else issues1);
              missed = (exp_escalated (expectedOutcome scenario) \<and>
                        \<not> (case actualOutcome scenario of
                             None \<Rightarrow> False
                           | Some actual \<Rightarrow> act_escalated actual));
              escalationHandling = (if missed then 20 else 90);
              issues3 = (if missed then issues2 @ [''Failed to escalate when expected'']
                         else issues2);
              overallScore = Math_round
                 (of_int (accuracy + efficiency + appropriateness + escalationHandling) / 4);
              verdict = \<lparr>jv_scenarioId = scenarioId, jv_overallScore = overallScore,
                         dimensions = \<lparr>accuracy = accuracy, efficiency = efficiency,
                                       appropriateness = appropriateness,
                                       escalationHandling = escalationHandling\<rparr>,
                         issues = issues3, suggestions = suggestions, jv_timestamp = now\<rparr>
          in Inr (verdict, eng\<lparr>verdicts := AList.update scenarioId verdict (verdicts eng)\<rparr>)
      | _ \<Rightarrow> Inl (Error ''Cannot judge: scenario or timeline not found''))"

section \<open>Judge team (class JudgeTeam, in src/api/simulation.ts)\<close>

datatype SessionStatus = Active | Completed | SessionFailed

datatype Severity = Critical | Major | Minor

datatype SignalType = Positive | Negative | Corrective

datatype Recommendation = SHIP | IMPROVE | BLOCK

record CriticalIssue =
  severity :: Severity
  category :: string
  ci_description :: string
  affectedScenarios :: "string list"
  suggestedFix :: string

record ImprovementArea =
  area :: string
  currentScore :: int
  targetScore :: int
  actions :: "string list"

record TrainingSignal =
  ts_type :: SignalType
  ts_scenarioId :: string
  ts_input :: string
  expectedOutput :: string
  actualOutput :: string
  correction :: "string option"

text \<open>
  \<open>passRate\<close> is a quotient of two counts times 100. It is kept as the exact
  rational; the rounding of the host's binary floating point is not modelled.
\<close>

record ConsensusVerdict =
  cv_overallScore :: int
  passRate :: rat
  criticalIssues :: "CriticalIssue list"
  improvementAreas :: "ImprovementArea list"
  trainingSignals :: "TrainingSignal list"
  recommendation :: Recommendation

record JudgeSession =
  js_id :: string
  startedAt :: int
  completedAt :: "int option"
  js_status :: SessionStatus
  scenariosJudged :: "string list"
  consensusReached :: bool
  finalVerdict :: "ConsensusVerdict option"

text \<open>
  Of the team's fields only the session registry is kept: the judge roster is a
  constant and the integration checks never touch a session.
\<close>

record JudgeTeam =
  sessions :: "(string \<times> JudgeSession) list"

definition newJudgeTeam :: JudgeTeam where
  "newJudgeTeam = \<lparr>sessions = []\<rparr>"

text \<open>\<open>now\<close> is the reading of \<open>Date.now()\<close>, \<open>started\<close> that of \<open>new Date()\<close>.\<close>

definition startSession :: "int \<Rightarrow> int \<Rightarrow> JudgeTeam \<Rightarrow> JudgeSession \<times> JudgeTeam" where
  "startSession now started jt =
     (let session = \<lparr>js_id = ''judge_'' @ Num_toString now, startedAt = started,
                      completedAt = None, js_status = Active, scenariosJudged = [],
                      consensusReached = False, finalVerdict = None\<rparr>
      in (session, jt\<lparr>sessions := AList.update (js_id session) session (sessions jt)\<rparr>))"

definition getLatestSession :: "JudgeTeam \<Rightarrow> JudgeSession option" where
  "getLatestSession jt =
     (case sessions jt of [] \<Rightarrow> None | _ # _ \<Rightarrow> Some (snd (last (sessions jt))))"

subsection \<open>judgeAllScenarios\<close>



subsection \<open>reachConsensus\<close>

fun sum_scores :: "JudgeVerdict list \<Rightarrow> int \<Rightarrow> int" where
  "sum_scores [] weightedScore = weightedScore"
| "sum_scores (verdict # rest) weightedScore =
     sum_scores rest (weightedScore + jv_overallScore verdict)"

fun issues_loop :: "JudgeVerdict list \<Rightarrow> CriticalIssue list \<Rightarrow> CriticalIssue list" where
  "issues_loop [] found = found"
| "issues_loop (verdict # rest) found =
     (let c1 = (if escalationHandling (dimensions verdict) < 50
                then found @
                     [\<lparr>severity = Critical, category = ''Escalation'',
                       ci_description = ''Escalation handling is below threshold'',
                       affectedScenarios = [jv_scenarioId verdict],
                       suggestedFix = ''Review escalation detection logic''\<rparr>]
                else found);
          c2 = (if accuracy (dimensions verdict) < 50
                then c1 @
                     [\<lparr>severity = Major, category = ''Accuracy'',
                       ci_description = ''Response accuracy is below threshold'',
                       affectedScenarios = [jv_scenarioId verdict],
                       suggestedFix = ''Improve intent classification''\<rparr>]
                else c1)
      in issues_loop rest c2)"

fun sum_dimensions :: "JudgeVerdict list \<Rightarrow> Dimensions \<Rightarrow> Dimensions" where
  "sum_dimensions [] acc = acc"
| "sum_dimensions (v # rest) acc =
     sum_dimensions rest
       \<lparr>accuracy = accuracy acc + accuracy (dimensions v),
        efficiency = efficiency acc + efficiency (dimensions v),
        appropriateness = appropriateness acc + appropriateness (dimensions v),
        escalationHandling = escalationHandling acc + escalationHandling (dimensions v)\<rparr>"

definition calculateAverageDimensions :: "JudgeVerdict list \<Rightarrow> Dimensions" where
  "calculateAverageDimensions vs =
     (if length vs = 0
      then \<lparr>accuracy = 0, efficiency = 0, appropriateness = 0, escalationHandling = 0\<rparr>
      else
        let total = sum_dimensions vs
                    \<lparr>accuracy = 0, efficiency = 0, appropriateness = 0, escalationHandling = 0\<rparr>;
            n = (of_nat (length vs) :: rat)
        in \<lparr>accuracy = Math_round (of_int (accuracy total) / n),
            efficiency = Math_round (of_int (efficiency total) / n),
            appropriateness = Math_round (of_int (appropriateness total) / n),
            escalationHandling = Math_round (of_int (escalationHandling total) / n)\<rparr>)"

text \<open>
  The loop that derives the training signals. \<open>scenario.inputs[0]\<close> is \<open>undefined\<close> for
  an empty list, and reading \<open>customerMessage\<close> of it throws a \<open>TypeError\<close>.
\<close>

fun signals_loop :: "SimulationScenario list \<Rightarrow> TrainingSignal list \<Rightarrow> error + TrainingSignal list" where
  "signals_loop [] signals = Inr signals"
| "signals_loop (scenario # rest) signals =
     (if status scenario = Failed \<and> actualOutcome scenario \<noteq> None then
        (case inputs scenario of
           [] \<Rightarrow> Inl (TypeError ''Cannot read properties of undefined (reading customerMessage)'')
         | first # _ \<Rightarrow>
             signals_loop rest
               (signals @
                [\<lparr>ts_type = Negative, ts_scenarioId = sc_id scenario,
                  ts_input = customerMessage first,
                  expectedOutput =
                    (case finalMessageContains (expectedOutcome scenario) of
                       None \<Rightarrow> [] | Some needles \<Rightarrow> join '', '' needles),
                  actualOutput = finalMessage (the (actualOutcome scenario)),
                  correction = None\<rparr>]))
      else signals_loop rest signals)"

definition reachConsensus ::
  "int \<Rightarrow> string \<Rightarrow> SimulationEngine \<Rightarrow> JudgeTeam \<Rightarrow> error + (ConsensusVerdict \<times> JudgeTeam)" where
  "reachConsensus now sessionId eng jt =
     (case map_of (sessions jt) sessionId of
        None \<Rightarrow> Inl (Error (''Session not found: '' @ sessionId))
      | Some session \<Rightarrow>
          let verdicts = getVerdicts eng;
              scenarios = getScenarios eng;
              passed = length (filter (\<lambda>s. status s = Passed) scenarios);
              total = length (filter (\<lambda>s. status s \<noteq> Pending) scenarios);
              passRate = (if total > 0 then (of_nat passed / of_nat total) * 100 else 0);
              weightedScore = sum_scores verdicts 0;
              overallScore = (if length verdicts > 0
                              then Math_round (of_int weightedScore / of_nat (length verdicts))
                              else 0);
              criticalIssues = issues_loop verdicts [];
              avgDimensions = calculateAverageDimensions verdicts;
              areas1 = (if accuracy avgDimensions < 80
                        then [\<lparr>area = ''Intent Classification'',
                               currentScore = accuracy avgDimensions, targetScore = 85,
                               actions = [''Add more training examples'',
                                          ''Improve prompt engineering'']\<rparr>]
                        else []);
              improvementAreas =
                       (if efficiency avgDimensions < 80
                        then areas1 @
                             [\<lparr>area = ''Response Efficiency'',
                               currentScore = efficiency avgDimensions, targetScore = 85,
                               actions = [''Reduce tool call latency'',
                                          ''Cache frequent lookups'']\<rparr>]
                        else areas1)
          in (case signals_loop scenarios [] of
                Inl e \<Rightarrow> Inl e
              | Inr signals \<Rightarrow>
                  let recommendation =
                        (if list_ex (\<lambda>i. severity i = Critical) criticalIssues then BLOCK
                         else if passRate < 80 \<or> overallScore < 70 then IMPROVE
                         else SHIP);
                      consensus = \<lparr>cv_overallScore = overallScore, passRate = passRate,
                                   criticalIssues = criticalIssues,
                                   improvementAreas = improvementAreas,
                                   trainingSignals = signals,
                                   recommendation = recommendation\<rparr>;
                      session' = session\<lparr>finalVerdict := Some consensus,
                                         consensusReached := True,
                                         completedAt := Some now,
                                         js_status := Completed\<rparr>
                  in Inr (consensus,
                          jt\<lparr>sessions := AList.update sessionId session' (sessions jt)\<rparr>)))"

section \<open>The specification's wording\<close>

text \<open>
  The definitions of this section follow the sentences of the specification, not the
  code; the theorems below compare the two.
\<close>



text \<open>The number of events a session trace recorded; no trace, no events.\<close>

definition traceEventCount :: "SessionTrace option \<Rightarrow> nat" where
  "traceEventCount tr = (case tr of None \<Rightarrow> 0 | Some t \<Rightarrow> length (trace_timeline t))"

text \<open>
  Start at 100; subtract 30 for an escalation that was not expected, 40 for an expected
  one that did not occur; add 5 for at most 3 trace events, subtract 10 for more than 10;
  clamp to the range from 0 to 100.
\<close>

definition spec_qualityScore :: "bool \<Rightarrow> bool \<Rightarrow> nat \<Rightarrow> int" where
  "spec_qualityScore expected actual n =
     (let s0 = 100;
          s1 = s0 - (if actual \<and> \<not> expected then 30 else 0);
          s2 = s1 - (if expected \<and> \<not> actual then 40 else 0);
          s3 = s2 + (if n \<le> 3 then 5 else 0);
          s4 = s3 - (if n > 10 then 10 else 0)
      in if s4 < 0 then 0 else if s4 > 100 then 100 else s4)"

text \<open>The unweighted arithmetic mean of the four dimensions.\<close>

definition spec_mean :: "Dimensions \<Rightarrow> rat" where
  "spec_mean d =
     of_int (accuracy d + efficiency d + appropriateness d + escalationHandling d) / 4"




text \<open>A failed, executed scenario can yield its training signal: it has a first input.\<close>

definition signal_ready :: "SimulationScenario \<Rightarrow> bool" where
  "signal_ready scenario \<longleftrightarrow>
     (status scenario = Failed \<and> actualOutcome scenario \<noteq> None \<longrightarrow> inputs scenario \<noteq> [])"

section \<open>Notions used in the statements\<close>

text \<open>The loop's variables on entry, and the outcome record built on exit.\<close>

definition startRun :: "'w Tracer \<Rightarrow> (nat \<Rightarrow> int) \<Rightarrow> string \<Rightarrow> 'w Machine \<Rightarrow> 'w Run" where
  "startRun tracer clock scenarioId m =
     \<lparr>run_events = [], run_finalMessage = [], run_escalated = False,
      run_world = initSession tracer (simSessionId scenarioId (clock (ticks m + 1))) (world m),
      run_ticks = ticks m + 2\<rparr>"

definition outcomeOf ::
  "'w Tracer \<Rightarrow> (nat \<Rightarrow> int) \<Rightarrow> string \<Rightarrow> 'w Machine \<Rightarrow> 'w Run \<Rightarrow> ActualOutcome" where
  "outcomeOf tracer clock scenarioId m r =
     \<lparr>act_escalated = run_escalated r, act_agentSequence = [], act_toolsCalled = [],
      act_trace = getTrace tracer (simSessionId scenarioId (clock (ticks m + 1))) (run_world r),
      finalMessage = run_finalMessage r\<rparr>"



section \<open>Concrete scenarios, executors and states\<close>

text \<open>\<open>SCENE-001\<close> of src/mas/simulation/scenarios.ts.\<close>

definition SCENE_001 :: SimulationScenario where
  "SCENE_001 =
     \<lparr>sc_id = ''SCENE-001'', sc_name = ''Order Status Inquiry'',
      sc_description = ''Customer asks about order status - happy path'',
      inputs =
        [\<lparr>step = 1,
          customerMessage = ''Hi, I placed an order last week. Can you tell me where it is?'',
          expectedIntent = Some ''ORDER_STATUS'', expectedAgent = None\<rparr>,
         \<lparr>step = 2, customerMessage = ''The order number is #1234567'',
          expectedIntent = Some ''ORDER_STATUS'', expectedAgent = None\<rparr>],
      expectedOutcome =
        \<lparr>exp_escalated = False, exp_agentSequence = [''order-agent''],
         exp_toolsCalled = Some [''get_order'', ''get_tracking''],
         finalMessageContains = Some [''order'', ''status'']\<rparr>,
      actualOutcome = None, status = Pending, executedAt = None, duration = None\<rparr>"

definition order_reply :: ExecutorResult where
  "order_reply = \<lparr>message = ''I can help with your order status'', escalated = False\<rparr>"

text \<open>A scenario of three turns that expects the hand-off to a human.\<close>

definition HANDOFF :: SimulationScenario where
  "HANDOFF =
     \<lparr>sc_id = ''HANDOFF'', sc_name = ''Explicit Human Request'',
      sc_description = ''Customer asks for a human in the second turn'',
      inputs =
        [\<lparr>step = 1, customerMessage = ''Hello'', expectedIntent = None, expectedAgent = None\<rparr>,
         \<lparr>step = 2, customerMessage = ''I want a human'', expectedIntent = None,
          expectedAgent = None\<rparr>,
         \<lparr>step = 3, customerMessage = ''Thanks'', expectedIntent = None, expectedAgent = None\<rparr>],
      expectedOutcome =
        \<lparr>exp_escalated = True, exp_agentSequence = [], exp_toolsCalled = None,
         finalMessageContains = Some [''escalat'']\<rparr>,
      actualOutcome = None, status = Pending, executedAt = None, duration = None\<rparr>"

text \<open>A scenario without inputs that expects an escalation.\<close>

definition NO_INPUT :: SimulationScenario where
  "NO_INPUT =
     \<lparr>sc_id = ''NO-INPUT'', sc_name = ''No Input'',
      sc_description = ''Nothing is said'',
      inputs = [],
      expectedOutcome =
        \<lparr>exp_escalated = True, exp_agentSequence = [], exp_toolsCalled = None,
         finalMessageContains = None\<rparr>,
      actualOutcome = None, status = Pending, executedAt = None, duration = None\<rparr>"

text \<open>A clock that advances by one millisecond from one reading to the next.\<close>

definition ms_clock :: "nat \<Rightarrow> int" where
  "ms_clock k = int k"

text \<open>
  A world that is the number of events in the trace of the running session:
  \<open>initSession\<close> opens an empty trace and \<open>getTrace\<close> returns that many events.
\<close>

definition counting_tracer :: "nat Tracer" where
  "counting_tracer =
     \<lparr>initSession = (\<lambda>sid w. 0),
      getTrace = (\<lambda>sid w. Some \<lparr>trace_timeline = replicate w TraceDecision\<rparr>)\<rparr>"

text \<open>An executor that records nothing in the trace, and one that records six events a turn.\<close>

definition quiet_executor :: "nat Executor" where
  "quiet_executor sid msg w = (Inr order_reply, w)"

definition chatty_executor :: "nat Executor" where
  "chatty_executor sid msg w = (Inr order_reply, w + 6)"


text \<open>
  A world that is the list of the messages the executor has received, with an executor
  that hands off when the customer asks for a human.
\<close>

definition silent_tracer :: "string list Tracer" where
  "silent_tracer = \<lparr>initSession = (\<lambda>sid w. w), getTrace = (\<lambda>sid w. None)\<rparr>"

definition handoff_executor :: "string list Executor" where
  "handoff_executor sid msg w =
     (Inr (if str_includes msg ''human''
           then \<lparr>message = ''I am escalating this to our team.'', escalated = True\<rparr>
           else \<lparr>message = ''How can I help you today?'', escalated = False\<rparr>),
      w @ [msg])"

definition scene_machine :: "nat Machine" where
  "scene_machine =
     \<lparr>engine = registerScenario SCENE_001 newSimulationEngine, world = 0, ticks = 0\<rparr>"

definition handoff_machine :: "string list Machine" where
  "handoff_machine =
     \<lparr>engine = registerScenario HANDOFF newSimulationEngine, world = [], ticks = 0\<rparr>"

text \<open>The runs of these scenarios that the statements below refer to.\<close>

definition scene_run :: "(error + SimulationTimeline) \<times> nat Machine" where
  "scene_run = runSimulation counting_tracer ms_clock ''SCENE-001'' quiet_executor scene_machine"

definition chatty_run :: "(error + SimulationTimeline) \<times> nat Machine" where
  "chatty_run = runSimulation counting_tracer ms_clock ''SCENE-001'' chatty_executor scene_machine"

text \<open>The loop's variables after the first turn of \<open>HANDOFF\<close>, and the reply to its second.\<close>

definition handoff_first :: "string list Run" where
  "handoff_first =
     projr (run_inputs ms_clock (ms_clock (ticks handoff_machine))
              (simSessionId ''HANDOFF'' (ms_clock (ticks handoff_machine + 1)))
              handoff_executor (take 1 (inputs HANDOFF))
              (startRun silent_tracer ms_clock ''HANDOFF'' handoff_machine))"

definition handoff_reply :: ExecutorResult where
  "handoff_reply = \<lparr>message = ''I am escalating this to our team.'', escalated = True\<rparr>"



text \<open>A team with one session, \<open>judge_42\<close>, and with a second one, \<open>judge_43\<close>.\<close>

definition one_session :: JudgeTeam where
  "one_session = snd (startSession 42 42 newJudgeTeam)"

definition two_sessions :: JudgeTeam where
  "two_sessions = snd (startSession 43 43 one_session)"

text \<open>\<open>HANDOFF\<close> run with an executor that never escalates, and judged.\<close>

definition missed_machine :: "nat Machine" where
  "missed_machine =
     \<lparr>engine = registerScenario HANDOFF newSimulationEngine, world = 0, ticks = 0\<rparr>"

definition missed_engine :: SimulationEngine where
  "missed_engine =
     snd (projr (judgeScenario 9 ''HANDOFF''
                   (engine (snd (runSimulation counting_tracer ms_clock ''HANDOFF''
                                   quiet_executor missed_machine)))))"

text \<open>\<open>NO-INPUT\<close> registered and run: no turn, no escalation, so the run fails.\<close>

definition no_input_engine :: SimulationEngine where
  "no_input_engine =
     engine (snd (runSimulation counting_tracer ms_clock ''NO-INPUT'' quiet_executor
                    \<lparr>engine = registerScenario NO_INPUT newSimulationEngine,
                     world = 0, ticks = 0\<rparr>))"



text \<open>The engine after the run of \<open>SCENE-001\<close>.\<close>

definition judged_engine :: SimulationEngine where
  "judged_engine = engine (snd scene_run)"

section \<open>Auxiliary facts\<close>

lemma result_shape: "\<not> isl (fst p) \<Longrightarrow> p = (Inr (projr (fst p)), snd p)"
  by (cases p) (auto simp: isl_def)




lemma calculateQualityScore_spec:
  "calculateQualityScore scenario actual =
     spec_qualityScore (exp_escalated (expectedOutcome scenario)) (act_escalated actual)
       (traceEventCount (act_trace actual))"
  by (simp add: calculateQualityScore_def spec_qualityScore_def traceEventCount_def Let_def
           split: option.splits)

lemma spec_qualityScore_range:
  "0 \<le> spec_qualityScore e a n \<and> spec_qualityScore e a n \<le> 100"
  by (simp add: spec_qualityScore_def Let_def)

text \<open>What a run that returns a timeline has done.\<close>

lemma runSimulation_Inr:
  assumes "runSimulation tracer clock scenarioId executor m = (Inr timeline, m')"
  obtains scenario r where
    "map_of (scenarios (engine m)) scenarioId = Some scenario"
    "run_inputs clock (clock (ticks m)) (simSessionId scenarioId (clock (ticks m + 1)))
       executor (inputs scenario) (startRun tracer clock scenarioId m) = Inr r"
    "world m' = run_world r"
    "events timeline = run_events r"
    "fs_escalated (finalState timeline) = run_escalated r"
    "qualityScore (finalState timeline) =
       calculateQualityScore (scenario\<lparr>status := Running\<rparr>)
         (outcomeOf tracer clock scenarioId m r)"
    "map_of (scenarios (engine m')) scenarioId =
       Some (scenario\<lparr>actualOutcome := Some (outcomeOf tracer clock scenarioId m r),
                      status := (if evaluateScenario
                                      (scenario\<lparr>status := Running,
                                         actualOutcome :=
                                           Some (outcomeOf tracer clock scenarioId m r)\<rparr>)
                                 then Passed else Failed),
                      executedAt := Some (clock (run_ticks r + 1)),
                      duration := Some (clock (run_ticks r) - clock (ticks m))\<rparr>)"
proof -
  from assms obtain scenario where sc: "map_of (scenarios (engine m)) scenarioId = Some scenario"
    unfolding runSimulation_def by (auto split: option.splits)
  from assms sc obtain r where
    r: "run_inputs clock (clock (ticks m)) (simSessionId scenarioId (clock (ticks m + 1)))
          executor (inputs scenario) (startRun tracer clock scenarioId m) = Inr r"
    unfolding runSimulation_def startRun_def
    by (auto simp: Let_def split: sum.splits prod.splits)
  from assms sc r have
    "world m' = run_world r"
    "events timeline = run_events r"
    "fs_escalated (finalState timeline) = run_escalated r"
    "qualityScore (finalState timeline) =
       calculateQualityScore (scenario\<lparr>status := Running\<rparr>)
         (outcomeOf tracer clock scenarioId m r)"
    "map_of (scenarios (engine m')) scenarioId =
       Some (scenario\<lparr>actualOutcome := Some (outcomeOf tracer clock scenarioId m r),
                      status := (if evaluateScenario
                                      (scenario\<lparr>status := Running,
                                         actualOutcome :=
                                           Some (outcomeOf tracer clock scenarioId m r)\<rparr>)
                                 then Passed else Failed),
                      executedAt := Some (clock (run_ticks r + 1)),
                      duration := Some (clock (run_ticks r) - clock (ticks m))\<rparr>)"
    unfolding runSimulation_def startRun_def outcomeOf_def
    by (auto simp: Let_def update_conv')
  with sc r show thesis by (rule that)
qed

text \<open>Conversely, a loop that ends without an error gives a run that returns.\<close>

lemma runSimulation_of_loop:
  assumes "map_of (scenarios (engine m)) scenarioId = Some scenario"
      and "run_inputs clock (clock (ticks m)) (simSessionId scenarioId (clock (ticks m + 1)))
             executor (inputs scenario) (startRun tracer clock scenarioId m) = Inr r"
  shows "\<exists>timeline m'. runSimulation tracer clock scenarioId executor m = (Inr timeline, m')"
  using assms unfolding runSimulation_def startRun_def
  by (simp add: Let_def)

section \<open>Scenario evaluation\<close>



section \<open>Quality score\<close>

text \<open>
  Claim C3. For every timeline that \<open>runSimulation\<close> returns, \<open>finalState.qualityScore\<close>
  is the value of the computation of the specification (start at 100, subtract 30 for an
  escalation that was not expected, subtract 40 for an expected escalation that did not
  occur, add 5 when the session trace holds at most 3 events, subtract 10 when it holds
  more than 10, clamp), taken at the scenario's expected flag, the run's escalation flag
  and the number of events in the trace of the run's session; it is an integer between
  0 and 100.
\<close>

theorem runSimulation_qualityScore:
  assumes "runSimulation tracer clock scenarioId executor m = (Inr timeline, m')"
      and "map_of (scenarios (engine m)) scenarioId = Some scenario"
  shows "qualityScore (finalState timeline) =
           spec_qualityScore (exp_escalated (expectedOutcome scenario))
             (fs_escalated (finalState timeline))
             (traceEventCount
                (getTrace tracer (simSessionId scenarioId (clock (ticks m + 1))) (world m')))
         \<and> 0 \<le> qualityScore (finalState timeline) \<and> qualityScore (finalState timeline) \<le> 100"
proof -
  from assms(1) obtain scenario' r where
    sc: "map_of (scenarios (engine m)) scenarioId = Some scenario'" and
    w: "world m' = run_world r" and
    esc: "fs_escalated (finalState timeline) = run_escalated r" and
    q: "qualityScore (finalState timeline) =
       calculateQualityScore (scenario'\<lparr>status := Running\<rparr>) (outcomeOf tracer clock scenarioId m r)"
    by (rule runSimulation_Inr)
  from sc assms(2) have "scenario' = scenario" by simp
  with w esc q show ?thesis
    by (simp add: calculateQualityScore_spec spec_qualityScore_range outcomeOf_def)
qed

theorem runSimulation_qualityScore_witness:
  "chatty_run = (Inr (projr (fst chatty_run)), snd chatty_run) \<and>
   map_of (scenarios (engine scene_machine)) ''SCENE-001'' = Some SCENE_001 \<and>
   qualityScore (finalState (projr (fst chatty_run))) =
     spec_qualityScore (exp_escalated (expectedOutcome SCENE_001))
       (fs_escalated (finalState (projr (fst chatty_run))))
       (traceEventCount
          (getTrace counting_tracer (simSessionId ''SCENE-001'' (ms_clock (ticks scene_machine + 1)))
             (world (snd chatty_run)))) \<and>
   0 \<le> qualityScore (finalState (projr (fst chatty_run))) \<and>
   qualityScore (finalState (projr (fst chatty_run))) \<le> 100"
proof -
  have "\<not> isl (fst chatty_run)" by code_simp
  then have h: "chatty_run = (Inr (projr (fst chatty_run)), snd chatty_run)"
    by (rule result_shape)
  then have run: "runSimulation counting_tracer ms_clock ''SCENE-001'' chatty_executor scene_machine =
               (Inr (projr (fst chatty_run)), snd chatty_run)"
    by (simp only: chatty_run_def)
  have reg: "map_of (scenarios (engine scene_machine)) ''SCENE-001'' = Some SCENE_001"
    by (simp add: scene_machine_def registerScenario_def newSimulationEngine_def SCENE_001_def)
  from h reg runSimulation_qualityScore [OF run reg] show ?thesis by simp
qed

section \<open>Early exit on escalation\<close>

text \<open>The loop: when the inputs before \<open>x\<close> pass without escalation and the reply to \<open>x\<close>
  escalates, the loop ends there, whatever follows \<open>x\<close>.\<close>

lemma run_inputs_break:
  assumes "run_inputs clock start sid ex pre r = Inr r1"
      and "pre = [] \<or> \<not> run_escalated r1"
      and "ex sid (customerMessage x) (run_world r1) = (Inr result, w)"
      and "escalated result"
  shows "run_inputs clock start sid ex (pre @ x # post) r =
           Inr \<lparr>run_events = run_events r1 @
                    [messageEvent (clock (run_ticks r1) - start) x,
                     replyEvent (clock (run_ticks r1 + 1) - start) result],
                run_finalMessage = message result,
                run_escalated = True,
                run_world = w,
                run_ticks = run_ticks r1 + 2\<rparr>"
  using assms
proof (induction pre arbitrary: r)
  case Nil
  then show ?case by simp
next
  case (Cons a pre)
  then show ?case
    by (auto simp: Let_def split: sum.splits prod.splits if_splits)
qed

text \<open>
  Claim C5. Let the inputs of the scenario be \<open>pre @ x # post\<close>, let the turns of \<open>pre\<close>
  pass without an escalation, and let the executor's reply to \<open>x\<close> report an escalation,
  leaving the world \<open>w\<close>. Then \<open>runSimulation\<close> returns; the timeline holds the events of
  \<open>pre\<close> followed by the message event and the escalation event of \<open>x\<close> and nothing
  for \<open>post\<close>; the world after the run is \<open>w\<close>, the world the escalating call left, so
  the executor was not called for any input of \<open>post\<close>; and the final message is the
  reply to \<open>x\<close>.
\<close>

theorem runSimulation_stops_at_escalation:
  assumes reg: "map_of (scenarios (engine m)) scenarioId = Some scenario"
      and inp: "inputs scenario = pre @ x # post"
      and pre: "run_inputs clock (clock (ticks m)) (simSessionId scenarioId (clock (ticks m + 1)))
                  executor pre (startRun tracer clock scenarioId m) = Inr r1"
      and quiet: "pre = [] \<or> \<not> run_escalated r1"
      and reply: "executor (simSessionId scenarioId (clock (ticks m + 1))) (customerMessage x)
                    (run_world r1) = (Inr result, w)"
      and esc: "escalated result"
  shows "\<exists>timeline m' after actual.
           runSimulation tracer clock scenarioId executor m = (Inr timeline, m') \<and>
           events timeline =
             run_events r1 @
               [messageEvent (clock (run_ticks r1) - clock (ticks m)) x,
                replyEvent (clock (run_ticks r1 + 1) - clock (ticks m)) result] \<and>
           ev_type (last (events timeline)) = Escalation \<and>
           world m' = w \<and>
           map_of (scenarios (engine m')) scenarioId = Some after \<and>
           actualOutcome after = Some actual \<and>
           finalMessage actual = message result"
proof -
  let ?sid = "simSessionId scenarioId (clock (ticks m + 1))"
  let ?r = "\<lparr>run_events = run_events r1 @
                    [messageEvent (clock (run_ticks r1) - clock (ticks m)) x,
                     replyEvent (clock (run_ticks r1 + 1) - clock (ticks m)) result],
                run_finalMessage = message result,
                run_escalated = True,
                run_world = w,
                run_ticks = run_ticks r1 + 2\<rparr>"
  from run_inputs_break [OF pre quiet reply esc, of post] inp
  have loop: "run_inputs clock (clock (ticks m)) ?sid executor (inputs scenario)
                (startRun tracer clock scenarioId m) = Inr ?r"
    by simp
  from runSimulation_of_loop [OF reg loop] obtain timeline m' where
    run: "runSimulation tracer clock scenarioId executor m = (Inr timeline, m')" by blast
  from run obtain scenario' r' where
    sc': "map_of (scenarios (engine m)) scenarioId = Some scenario'" and
    loop': "run_inputs clock (clock (ticks m)) ?sid executor (inputs scenario')
                (startRun tracer clock scenarioId m) = Inr r'" and
    w: "world m' = run_world r'" and
    ev: "events timeline = run_events r'" and
    after: "map_of (scenarios (engine m')) scenarioId =
       Some (scenario'\<lparr>actualOutcome := Some (outcomeOf tracer clock scenarioId m r'),
                      status := (if evaluateScenario
                                      (scenario'\<lparr>status := Running,
                                         actualOutcome :=
                                           Some (outcomeOf tracer clock scenarioId m r')\<rparr>)
                                 then Passed else Failed),
                      executedAt := Some (clock (run_ticks r' + 1)),
                      duration := Some (clock (run_ticks r') - clock (ticks m))\<rparr>)"
    by (rule runSimulation_Inr)
  from reg sc' have "scenario' = scenario" by simp
  with loop loop' have r': "r' = ?r" by simp
  from esc have "ev_type (replyEvent (clock (run_ticks r1 + 1) - clock (ticks m)) result) = Escalation"
    by (simp add: replyEvent_def)
  with run w ev after r' show ?thesis
    by (simp add: outcomeOf_def)
qed

theorem runSimulation_stops_at_escalation_witness:
  "inputs HANDOFF = take 1 (inputs HANDOFF) @ (inputs HANDOFF ! 1) # drop 2 (inputs HANDOFF) \<and>
   \<not> run_escalated handoff_first \<and>
   escalated handoff_reply \<and>
   (\<exists>timeline m' after actual.
      runSimulation silent_tracer ms_clock ''HANDOFF'' handoff_executor handoff_machine =
        (Inr timeline, m') \<and>
      events timeline =
        run_events handoff_first @
          [messageEvent (ms_clock (run_ticks handoff_first) - ms_clock (ticks handoff_machine))
             (inputs HANDOFF ! 1),
           replyEvent (ms_clock (run_ticks handoff_first + 1) - ms_clock (ticks handoff_machine))
             handoff_reply] \<and>
      ev_type (last (events timeline)) = Escalation \<and>
      world m' = [''Hello'', ''I want a human''] \<and>
      map_of (scenarios (engine m')) ''HANDOFF'' = Some after \<and>
      actualOutcome after = Some actual \<and>
      finalMessage actual = message handoff_reply)"
proof -
  let ?sid = "simSessionId ''HANDOFF'' (ms_clock (ticks handoff_machine + 1))"
  let ?loop = "run_inputs ms_clock (ms_clock (ticks handoff_machine)) ?sid
                 handoff_executor (take 1 (inputs HANDOFF))
                 (startRun silent_tracer ms_clock ''HANDOFF'' handoff_machine)"
  have reg: "map_of (scenarios (engine handoff_machine)) ''HANDOFF'' = Some HANDOFF"
    by (simp add: handoff_machine_def registerScenario_def newSimulationEngine_def HANDOFF_def)
  have inp: "inputs HANDOFF =
               take 1 (inputs HANDOFF) @ (inputs HANDOFF ! 1) # drop 2 (inputs HANDOFF)"
    by (simp add: HANDOFF_def)
  have "\<not> isl ?loop" by code_simp
  then have pre: "?loop = Inr handoff_first"
    unfolding handoff_first_def by (cases ?loop) simp_all
  have quiet: "take 1 (inputs HANDOFF) = [] \<or> \<not> run_escalated handoff_first" by code_simp
  have reply: "handoff_executor ?sid (customerMessage (inputs HANDOFF ! 1))
                 (run_world handoff_first) = (Inr handoff_reply, [''Hello'', ''I want a human''])"
    by code_simp
  have esc: "escalated handoff_reply" by (simp add: handoff_reply_def)
  from quiet have quiet': "\<not> run_escalated handoff_first" by (simp add: HANDOFF_def)
  from inp quiet' esc
    runSimulation_stops_at_escalation [OF reg inp pre quiet reply esc]
  show ?thesis by blast
qed

section \<open>The scenario SCENE-001\<close>

lemma order_reply_found:
  "needles_found (message order_reply) [''order'', ''status'']"
  by code_simp

text \<open>
  Claim C8, amended. For the scenario registered under \<open>SCENE-001\<close>, with the inputs and
  the expected outcome of \<open>SCENE_001\<close>, and any executor that replies
  "I can help with your order status" without escalating on every turn, \<open>runSimulation\<close>
  returns, the status is \<open>passed\<close>, and the quality score is 100 when the trace of the
  run's session holds at most 10 events and 90 when it holds more.
\<close>

theorem scene_001_passes:
  assumes reg: "map_of (scenarios (engine m)) ''SCENE-001'' = Some scenario"
      and inp: "inputs scenario = inputs SCENE_001"
      and exp: "expectedOutcome scenario = expectedOutcome SCENE_001"
      and ex: "\<forall>sid msg w. fst (executor sid msg w) = Inr order_reply"
  shows "\<exists>timeline m' after.
           runSimulation tracer clock ''SCENE-001'' executor m = (Inr timeline, m') \<and>
           map_of (scenarios (engine m')) ''SCENE-001'' = Some after \<and>
           status after = Passed \<and>
           qualityScore (finalState timeline) =
             (if traceEventCount
                   (getTrace tracer (simSessionId ''SCENE-001'' (clock (ticks m + 1))) (world m'))
                 \<le> 10
              then 100 else 90)"
proof -
  let ?sid = "simSessionId ''SCENE-001'' (clock (ticks m + 1))"
  let ?r0 = "startRun tracer clock ''SCENE-001'' m"
  obtain i1 i2 where two: "inputs SCENE_001 = [i1, i2]" by (simp add: SCENE_001_def)
  obtain w1 where e1: "executor ?sid (customerMessage i1) (run_world ?r0) = (Inr order_reply, w1)"
    using ex by (metis prod.collapse)
  obtain w2 where e2: "executor ?sid (customerMessage i2) w1 = (Inr order_reply, w2)"
    using ex by (metis prod.collapse)
  have "\<exists>r. run_inputs clock (clock (ticks m)) ?sid executor (inputs scenario) ?r0 = Inr r \<and>
          run_finalMessage r = message order_reply \<and> \<not> run_escalated r"
    using e1 e2 by (simp add: inp two Let_def order_reply_def)
  then obtain r where
    loop: "run_inputs clock (clock (ticks m)) ?sid executor (inputs scenario) ?r0 = Inr r" and
    fm: "run_finalMessage r = message order_reply" and ne: "\<not> run_escalated r"
    by blast
  from runSimulation_of_loop [OF reg loop] obtain timeline m' where
    run: "runSimulation tracer clock ''SCENE-001'' executor m = (Inr timeline, m')" by blast
  from run obtain scenario' r' where
    sc': "map_of (scenarios (engine m)) ''SCENE-001'' = Some scenario'" and
    loop': "run_inputs clock (clock (ticks m)) ?sid executor (inputs scenario') ?r0 = Inr r'" and
    w: "world m' = run_world r'" and
    q: "qualityScore (finalState timeline) =
       calculateQualityScore (scenario'\<lparr>status := Running\<rparr>)
         (outcomeOf tracer clock ''SCENE-001'' m r')" and
    after: "map_of (scenarios (engine m')) ''SCENE-001'' =
       Some (scenario'\<lparr>actualOutcome := Some (outcomeOf tracer clock ''SCENE-001'' m r'),
                      status := (if evaluateScenario
                                      (scenario'\<lparr>status := Running,
                                         actualOutcome :=
                                           Some (outcomeOf tracer clock ''SCENE-001'' m r')\<rparr>)
                                 then Passed else Failed),
                      executedAt := Some (clock (run_ticks r' + 1)),
                      duration := Some (clock (run_ticks r') - clock (ticks m))\<rparr>)"
    by (rule runSimulation_Inr)
  from reg sc' have same: "scenario' = scenario" by simp
  with loop loop' have r': "r' = r" by simp
  have ev: "evaluateScenario (scenario\<lparr>status := Running,
              actualOutcome := Some (outcomeOf tracer clock ''SCENE-001'' m r)\<rparr>)"
    using order_reply_found fm ne exp
    by (simp add: evaluateScenario_def outcomeOf_def SCENE_001_def)
  have qs: "calculateQualityScore (scenario\<lparr>status := Running\<rparr>)
              (outcomeOf tracer clock ''SCENE-001'' m r) =
            (if traceEventCount (getTrace tracer ?sid (run_world r)) \<le> 10 then 100 else 90)"
    using ne exp
    by (simp add: calculateQualityScore_spec spec_qualityScore_def outcomeOf_def SCENE_001_def Let_def)
  from run w q after same r' ev qs show ?thesis by simp
qed

theorem scene_001_passes_witness:
  "\<exists>timeline m' after.
     runSimulation counting_tracer ms_clock ''SCENE-001'' quiet_executor scene_machine =
       (Inr timeline, m') \<and>
     map_of (scenarios (engine m')) ''SCENE-001'' = Some after \<and>
     status after = Passed \<and>
     qualityScore (finalState timeline) = 100"
proof -
  have reg: "map_of (scenarios (engine scene_machine)) ''SCENE-001'' = Some SCENE_001"
    by (simp add: scene_machine_def registerScenario_def newSimulationEngine_def SCENE_001_def)
  have ex: "\<forall>sid msg w. fst (quiet_executor sid msg w) = Inr order_reply"
    by (simp add: quiet_executor_def)
  from scene_001_passes [OF reg refl refl ex, of counting_tracer ms_clock]
  obtain timeline m' after where
    run: "runSimulation counting_tracer ms_clock ''SCENE-001'' quiet_executor scene_machine =
            (Inr timeline, m')" and
    after: "map_of (scenarios (engine m')) ''SCENE-001'' = Some after" "status after = Passed" and
    q: "qualityScore (finalState timeline) =
          (if traceEventCount
                (getTrace counting_tracer
                   (simSessionId ''SCENE-001'' (ms_clock (ticks scene_machine + 1))) (world m'))
              \<le> 10
           then 100 else 90)"
    by blast
  from run have "m' = snd scene_run" by (simp add: scene_run_def)
  moreover have "world (snd scene_run) = 0" by code_simp
  ultimately have "world m' = 0" by simp
  with q have "qualityScore (finalState timeline) = 100"
    by (simp add: counting_tracer_def traceEventCount_def)
  with run after show ?thesis by blast
qed

lemma chatty_executor_reply: "fst (chatty_executor sid msg w) = Inr order_reply"
  by (simp add: chatty_executor_def)

text \<open>
  Claim C8 as stated, with the score 100 for any such executor, fails for an executor
  that records six trace events in the session on each turn: the two turns leave twelve
  events, and the score is 90.
\<close>

theorem scene_001_chatty_counterexample:
  "map_of (scenarios (engine scene_machine)) ''SCENE-001'' = Some SCENE_001 \<and>
   runSimulation counting_tracer ms_clock ''SCENE-001'' chatty_executor scene_machine =
     (Inr (projr (fst chatty_run)), snd chatty_run) \<and>
   qualityScore (finalState (projr (fst chatty_run))) = 90"
proof -
  have reg: "map_of (scenarios (engine scene_machine)) ''SCENE-001'' = Some SCENE_001"
    by (simp add: scene_machine_def registerScenario_def newSimulationEngine_def SCENE_001_def)
  have "\<not> isl (fst chatty_run)" by code_simp
  then have "chatty_run = (Inr (projr (fst chatty_run)), snd chatty_run)"
    by (rule result_shape)
  then have run: "runSimulation counting_tracer ms_clock ''SCENE-001'' chatty_executor scene_machine =
               (Inr (projr (fst chatty_run)), snd chatty_run)"
    by (simp only: chatty_run_def)
  have q: "qualityScore (finalState (projr (fst chatty_run))) = 90" by code_simp
  from reg run q show ?thesis by simp
qed

section \<open>Judging one scenario\<close>


lemma Math_round_quarter: "Math_round (of_int s / 4) = (s + 2) div 4"
proof -
  have "(of_int s / 4 + 1 / 2 :: rat) = of_int (s + 2) / of_int 4" by simp
  then show ?thesis
    unfolding Math_round_def by (simp only: floor_divide_of_int_eq)
qed

text \<open>Away from a tie, \<open>Math.round\<close> gives the one integer that is nearest.\<close>

lemma Math_round_nearest:
  assumes "k \<noteq> Math_round q" and "of_int (Math_round q) \<noteq> q + 1 / 2"
  shows "\<bar>of_int (Math_round q) - q\<bar> < \<bar>of_int k - q\<bar>"
proof -
  let ?r = "Math_round q"
  have lo: "of_int ?r \<le> q + 1 / 2" and hi: "q + 1 / 2 < of_int ?r + 1"
    unfolding Math_round_def by linarith+
  from lo assms(2) have lo': "of_int ?r < q + 1 / 2" by simp
  from assms(1) have "k \<le> ?r - 1 \<or> ?r + 1 \<le> k" by linarith
  then have "(of_int k :: rat) \<le> of_int ?r - 1 \<or> (of_int ?r :: rat) + 1 \<le> of_int k"
  proof
    assume "k \<le> ?r - 1"
    then have "(of_int k :: rat) \<le> of_int (?r - 1)" by (simp only: of_int_le_iff)
    then show ?thesis by simp
  next
    assume "?r + 1 \<le> k"
    then have "(of_int (?r + 1) :: rat) \<le> of_int k" by (simp only: of_int_le_iff)
    then show ?thesis by simp
  qed
  with lo' hi show ?thesis by linarith
qed

lemma quarter_no_tie:
  "odd s \<Longrightarrow> rat_of_int (Math_round (of_int s / 4)) \<noteq> of_int s / 4 + 1 / 2"
proof
  assume o: "odd s" and e: "rat_of_int (Math_round (of_int s / 4)) = of_int s / 4 + 1 / 2"
  then have "rat_of_int (4 * Math_round (of_int s / 4)) = rat_of_int (s + 2)" by simp
  then have "4 * Math_round (of_int s / 4) = s + 2" by (simp only: of_int_eq_iff)
  with o show False by presburger
qed

text \<open>
  Claim C4. For a scenario with a registered entry and a stored timeline,
  \<open>judgeScenario\<close> returns a verdict whose accuracy is 40 if the status is \<open>failed\<close> and
  100 otherwise; whose efficiency is 100, less 20 if the total duration exceeds 5000;
  whose appropriateness is 85, less 30 if more than 3 events of type \<open>routing\<close> are in
  the timeline; whose escalation handling is 20 if escalation was expected and the
  actual outcome did not escalate (an absent outcome counts as not escalated), and 90
  otherwise; and whose overall score is the mean of the four rounded by \<open>Math.round\<close>,
  which is strictly nearer to the mean than any other integer.
\<close>

theorem judgeScenario_dimensions:
  assumes "map_of (scenarios eng) scenarioId = Some scenario"
      and "map_of (timelines eng) scenarioId = Some timeline"
  shows "\<exists>verdict eng'.
           judgeScenario now scenarioId eng = Inr (verdict, eng') \<and>
           accuracy (dimensions verdict) = (if status scenario = Failed then 40 else 100) \<and>
           efficiency (dimensions verdict) =
             100 - (if totalDuration (finalState timeline) > 5000 then 20 else 0) \<and>
           appropriateness (dimensions verdict) =
             85 - (if length (filter (\<lambda>e. ev_type e = Routing) (events timeline)) > 3
                   then 30 else 0) \<and>
           escalationHandling (dimensions verdict) =
             (if exp_escalated (expectedOutcome scenario) \<and>
                 \<not> (case actualOutcome scenario of None \<Rightarrow> False
                                                  | Some actual \<Rightarrow> act_escalated actual)
              then 20 else 90) \<and>
           jv_overallScore verdict = Math_round (spec_mean (dimensions verdict)) \<and>
           (\<forall>k. k \<noteq> jv_overallScore verdict \<longrightarrow>
                \<bar>of_int (jv_overallScore verdict) - spec_mean (dimensions verdict)\<bar>
                  < \<bar>of_int k - spec_mean (dimensions verdict)\<bar>)"
proof -
  from assms obtain verdict eng' where
    j: "judgeScenario now scenarioId eng = Inr (verdict, eng')" and
    a: "accuracy (dimensions verdict) = (if status scenario = Failed then 40 else 100)" and
    e: "efficiency (dimensions verdict) =
             100 - (if totalDuration (finalState timeline) > 5000 then 20 else 0)" and
    p: "appropriateness (dimensions verdict) =
             85 - (if length (filter (\<lambda>e. ev_type e = Routing) (events timeline)) > 3
                   then 30 else 0)" and
    h: "escalationHandling (dimensions verdict) =
             (if exp_escalated (expectedOutcome scenario) \<and>
                 \<not> (case actualOutcome scenario of None \<Rightarrow> False
                                                  | Some actual \<Rightarrow> act_escalated actual)
              then 20 else 90)" and
    o: "jv_overallScore verdict = Math_round (spec_mean (dimensions verdict))"
    unfolding judgeScenario_def spec_mean_def by (simp add: Let_def)
  let ?s = "accuracy (dimensions verdict) + efficiency (dimensions verdict) +
            appropriateness (dimensions verdict) + escalationHandling (dimensions verdict)"
  from a e p h have "odd ?s" by (simp split: if_splits)
  then have "rat_of_int (Math_round (spec_mean (dimensions verdict))) \<noteq>
               spec_mean (dimensions verdict) + 1 / 2"
    unfolding spec_mean_def by (rule quarter_no_tie)
  with o have "\<forall>k. k \<noteq> jv_overallScore verdict \<longrightarrow>
                \<bar>of_int (jv_overallScore verdict) - spec_mean (dimensions verdict)\<bar>
                  < \<bar>of_int k - spec_mean (dimensions verdict)\<bar>"
    using Math_round_nearest by simp
  with j a e p h o show ?thesis by blast
qed

theorem judgeScenario_dimensions_witness:
  "\<exists>verdict eng'.
     judgeScenario 9 ''SCENE-001'' judged_engine = Inr (verdict, eng') \<and>
     dimensions verdict =
       \<lparr>accuracy = 100, efficiency = 100, appropriateness = 85, escalationHandling = 90\<rparr> \<and>
     jv_overallScore verdict = 94"
proof -
  have "map_of (scenarios judged_engine) ''SCENE-001'' \<noteq> None" by code_simp
  then obtain scenario where sc: "map_of (scenarios judged_engine) ''SCENE-001'' = Some scenario"
    by blast
  have "map_of (timelines judged_engine) ''SCENE-001'' \<noteq> None" by code_simp
  then obtain timeline where tl: "map_of (timelines judged_engine) ''SCENE-001'' = Some timeline"
    by blast
  from judgeScenario_dimensions [OF sc tl, of 9] obtain verdict eng' where
    j: "judgeScenario 9 ''SCENE-001'' judged_engine = Inr (verdict, eng')" by blast
  have "dimensions (fst (projr (judgeScenario 9 ''SCENE-001'' judged_engine))) =
       \<lparr>accuracy = 100, efficiency = 100, appropriateness = 85, escalationHandling = 90\<rparr>"
    by code_simp
  moreover have "jv_overallScore (fst (projr (judgeScenario 9 ''SCENE-001'' judged_engine))) = 94"
    by code_simp
  ultimately show ?thesis using j by simp
qed

section \<open>Judging the batch\<close>







lemma one_session_lookup:
  "map_of (sessions one_session) ''judge_42'' = Some (fst (startSession 42 42 newJudgeTeam))"
  by code_simp


section \<open>Consensus\<close>








section \<open>When consensus throws\<close>

lemma signals_loop_total:
  "(\<exists>sigs. signals_loop scs acc = Inr sigs) \<longleftrightarrow> (\<forall>sc \<in> set scs. signal_ready sc)"
  by (induction scs arbitrary: acc) (auto simp: signal_ready_def split: list.splits)

lemma signals_loop_error:
  "signals_loop scs acc = Inl e \<Longrightarrow> \<exists>msg. e = TypeError msg"
  by (induction scs arbitrary: acc) (auto split: list.splits if_splits)

text \<open>
  Claim C9. For an existing session id, \<open>reachConsensus\<close> returns a verdict exactly when
  every scenario of the engine that is \<open>failed\<close> and has an actual outcome has at least
  one input; when some such scenario has no input, it throws a \<open>TypeError\<close>. The case
  occurs: a registered scenario without inputs that expects an escalation fails its
  run and then makes \<open>reachConsensus\<close> throw.
\<close>

theorem reachConsensus_total_iff:
  assumes "map_of (sessions jt) sessionId = Some session"
  shows "((\<exists>v jt'. reachConsensus now sessionId eng jt = Inr (v, jt')) \<longleftrightarrow>
            (\<forall>sc \<in> set (getScenarios eng). signal_ready sc)) \<and>
         ((\<exists>sc \<in> set (getScenarios eng). \<not> signal_ready sc) \<longrightarrow>
            (\<exists>msg. reachConsensus now sessionId eng jt = Inl (TypeError msg)))"
proof (cases "signals_loop (getScenarios eng) []")
  case (Inl e)
  then obtain msg where "e = TypeError msg" using signals_loop_error by blast
  with Inl assms have "reachConsensus now sessionId eng jt = Inl (TypeError msg)"
    by (simp add: reachConsensus_def Let_def)
  moreover from Inl have "\<not> (\<forall>sc \<in> set (getScenarios eng). signal_ready sc)"
    using signals_loop_total [of "getScenarios eng" "[]"] by simp
  ultimately show ?thesis by auto
next
  case (Inr sigs)
  with assms have "\<exists>v jt'. reachConsensus now sessionId eng jt = Inr (v, jt')"
    by (simp add: reachConsensus_def Let_def)
  moreover from Inr have "\<forall>sc \<in> set (getScenarios eng). signal_ready sc"
    using signals_loop_total [of "getScenarios eng" "[]"] by blast
  ultimately show ?thesis by blast
qed

theorem reachConsensus_total_iff_witness:
  "map_of (sessions one_session) ''judge_42'' = Some (fst (startSession 42 42 newJudgeTeam)) \<and>
   (\<exists>sc \<in> set (getScenarios no_input_engine).
      status sc = Failed \<and> actualOutcome sc \<noteq> None \<and> inputs sc = []) \<and>
   (\<exists>msg. reachConsensus 50 ''judge_42'' no_input_engine one_session = Inl (TypeError msg))"
proof -
  have ex: "\<exists>sc \<in> set (getScenarios no_input_engine).
              status sc = Failed \<and> actualOutcome sc \<noteq> None \<and> inputs sc = []"
    by code_simp
  then have "\<exists>sc \<in> set (getScenarios no_input_engine). \<not> signal_ready sc"
    by (auto simp: signal_ready_def)
  with reachConsensus_total_iff [OF one_session_lookup, of 50 no_input_engine] ex
    one_session_lookup
  show ?thesis by blast
qed

section \<open>Consensus does not depend on the session\<close>

text \<open>
  Claim C10. For one engine state and any two existing sessions, possibly in different
  states of the session registry and at different times, \<open>reachConsensus\<close> gives the
  same outcome: the same verdict in all its fields, or the same error.
\<close>

theorem reachConsensus_session_independent:
  assumes "map_of (sessions jt1) sessionId1 = Some session1"
      and "map_of (sessions jt2) sessionId2 = Some session2"
  shows "map_sum id fst (reachConsensus now1 sessionId1 eng jt1) =
         map_sum id fst (reachConsensus now2 sessionId2 eng jt2)"
  using assms
  by (cases "signals_loop (getScenarios eng) []")
     (simp_all add: reachConsensus_def Let_def split del: if_split)

lemma two_sessions_lookup:
  "map_of (sessions two_sessions) ''judge_42'' = Some (fst (startSession 42 42 newJudgeTeam))"
  "map_of (sessions two_sessions) ''judge_43'' = Some (fst (startSession 43 43 one_session))"
  by code_simp+

theorem reachConsensus_session_independent_witness:
  "map_sum id fst (reachConsensus 50 ''judge_42'' missed_engine two_sessions) =
   map_sum id fst (reachConsensus 60 ''judge_43'' missed_engine two_sessions) \<and>
   \<not> isl (reachConsensus 50 ''judge_42'' missed_engine two_sessions)"
proof -
  have "\<not> isl (reachConsensus 50 ''judge_42'' missed_engine two_sessions)" by code_simp
  with reachConsensus_session_independent [OF two_sessions_lookup, of 50 missed_engine 60]
  show ?thesis by simp
qed

section \<open>The life of a judge session\<close>






end
